theory Spec2Isabelle
  imports Main "HOL-Library.Sublist" "HOL-Library.AList" "HOL-Library.Word"
begin

unbundle bit_operations_syntax

section \<open>Python values used by setup.py\<close>

text \<open>
  The packaging script \<^verbatim>\<open>setup.py\<close> is embedded function by function. Python
  strings are \<^typ>\<open>string\<close> (lists of 8-bit characters), so the model covers ASCII
  text; exceptions are values of \<open>py_exception\<close>, and a function that may raise returns
  \<open>py_exception + 'a\<close> with \<open>Inl\<close> for the raised exception.
\<close>

datatype py_exception =
    FileNotFoundError string
  | FileExistsError
  | NotADirectoryError
  | IsADirectoryError
  | PermissionError
  | OtherOSError
  | SameFileError
  | ValueError
  | UnicodeDecodeError
  | SubprocessError
  | RuntimeError string

text \<open>\<^verbatim>\<open>isinstance(e, OSError)\<close>: the subclasses of OSError among the exceptions above
  (\<^verbatim>\<open>shutil.SameFileError\<close> derives from \<^verbatim>\<open>shutil.Error\<close>, an OSError).\<close>

fun isinstance_OSError :: "py_exception \<Rightarrow> bool" where
  "isinstance_OSError (FileNotFoundError m) = True"
| "isinstance_OSError FileExistsError = True"
| "isinstance_OSError NotADirectoryError = True"
| "isinstance_OSError IsADirectoryError = True"
| "isinstance_OSError PermissionError = True"
| "isinstance_OSError OtherOSError = True"
| "isinstance_OSError SameFileError = True"
| "isinstance_OSError e = False"

fun isinstance_ValueError :: "py_exception \<Rightarrow> bool" where
  "isinstance_ValueError ValueError = True"
| "isinstance_ValueError UnicodeDecodeError = True"
| "isinstance_ValueError e = False"

fun isinstance_FileNotFoundError :: "py_exception \<Rightarrow> bool" where
  "isinstance_FileNotFoundError (FileNotFoundError m) = True"
| "isinstance_FileNotFoundError e = False"

fun isinstance_SubprocessError :: "py_exception \<Rightarrow> bool" where
  "isinstance_SubprocessError SubprocessError = True"
| "isinstance_SubprocessError e = False"

fun isinstance_RuntimeError :: "py_exception \<Rightarrow> bool" where
  "isinstance_RuntimeError (RuntimeError m) = True"
| "isinstance_RuntimeError e = False"

subsection \<open>String operations\<close>

text \<open>\<^verbatim>\<open>a in s\<close> on strings: \<open>a\<close> occurs in \<open>s\<close> as a contiguous block.\<close>

fun str_in :: "string \<Rightarrow> string \<Rightarrow> bool" where
  "str_in a [] = (a = [])"
| "str_in a (c # cs) = (prefix a (c # cs) \<or> str_in a cs)"

text \<open>Python compares strings character by character, by code point; a proper prefix
  is smaller.\<close>

fun str_less :: "string \<Rightarrow> string \<Rightarrow> bool" where
  "str_less [] [] = False"
| "str_less [] (b # bs) = True"
| "str_less (a # as) [] = False"
| "str_less (a # as) (b # bs) =
     (if (of_char a :: nat) < of_char b then True
      else if (of_char b :: nat) < of_char a then False
      else str_less as bs)"

definition str_ge :: "string \<Rightarrow> string \<Rightarrow> bool" where
  "str_ge s t = (\<not> str_less s t)"

text \<open>\<^verbatim>\<open>str.lower()\<close> on ASCII letters.\<close>

definition lower_char :: "char \<Rightarrow> char" where
  "lower_char c =
     (case map_of (zip ''ABCDEFGHIJKLMNOPQRSTUVWXYZ'' ''abcdefghijklmnopqrstuvwxyz'') c of
        Some d \<Rightarrow> d
      | None \<Rightarrow> c)"

definition lower :: "string \<Rightarrow> string" where
  "lower s = map lower_char s"

text \<open>The regular expression \<^verbatim>\<open>(\d+\.\d+)(\.\d+)?\<close>. Both \<^verbatim>\<open>\d+\<close> are greedy,
  and giving back digits never helps the first one (the next character would be a
  digit, not a dot), so a match starting at a position exists exactly when a maximal run
  of digits there is followed by a dot and a digit; group 1 is the first run, the dot
  and the maximal second run. \<^verbatim>\<open>re.search\<close> takes the leftmost starting position.\<close>

definition isdigit :: "char \<Rightarrow> bool" where
  "isdigit c = (c \<in> set ''0123456789'')"

definition match_version_at :: "string \<Rightarrow> string option" where
  "match_version_at s =
     (let ds = takeWhile isdigit s; r = dropWhile isdigit s in
      if ds = [] then None
      else (case r of
              [] \<Rightarrow> None
            | c # r' \<Rightarrow>
                if c = CHR ''.'' \<and> takeWhile isdigit r' \<noteq> []
                then Some (ds @ [CHR ''.''] @ takeWhile isdigit r')
                else None))"

fun re_search_version :: "string \<Rightarrow> string option" where
  "re_search_version [] = None"
| "re_search_version (c # cs) =
     (case match_version_at (c # cs) of
        Some g \<Rightarrow> Some g
      | None \<Rightarrow> re_search_version cs)"

section \<open>The platform tag resolver (class PlatformSpecificWheel)\<close>

text \<open>
  The host environment the resolver reads: \<^verbatim>\<open>platform.system()\<close>,
  \<^verbatim>\<open>platform.machine()\<close>, the outcome of
  \<^verbatim>\<open>subprocess.run(['ldd', '--version'], capture_output=True, text=True, check=False)\<close>
  (an exception, or the captured standard output) and the outcome of
  \<^verbatim>\<open>os.path.exists('/lib64/libc.so.6')\<close>.
\<close>

record host =
  system :: string
  machine :: string
  ldd :: "py_exception + string"
  libc_exists :: "py_exception + bool"

text \<open>The chain of string comparisons of \<^verbatim>\<open>_get_linux_platform_tag\<close> (lines 184 to 193).\<close>

definition glibc_tag :: "string \<Rightarrow> string" where
  "glibc_tag glibc_version =
     (if str_ge glibc_version ''2.35'' then ''manylinux_2_35_x86_64''
      else if str_ge glibc_version ''2.34'' then ''manylinux_2_34_x86_64''
      else if str_ge glibc_version ''2.31'' then ''manylinux_2_31_x86_64''
      else if str_ge glibc_version ''2.17'' then ''manylinux_2_17_x86_64''
      else ''manylinux_2_12_x86_64'')"

text \<open>The second method and the default (lines 197 to 208): the bare \<^verbatim>\<open>except:\<close>
  swallows every exception, and both ways out return the same tag.\<close>

definition linux_fallback :: "host \<Rightarrow> string" where
  "linux_fallback h =
     (case libc_exists h of
        Inr True \<Rightarrow> ''manylinux_2_34_x86_64''
      | Inr False \<Rightarrow> ''manylinux_2_34_x86_64''
      | Inl e \<Rightarrow> ''manylinux_2_34_x86_64'')"

text \<open>\<^verbatim>\<open>_get_linux_platform_tag\<close>. The first \<^verbatim>\<open>try\<close> catches
  \<^verbatim>\<open>(subprocess.SubprocessError, FileNotFoundError)\<close> only; any other exception of the
  probe leaves the function.\<close>

definition get_linux_platform_tag :: "host \<Rightarrow> string \<Rightarrow> py_exception + string" where
  "get_linux_platform_tag h plat =
     (case ldd h of
        Inl e \<Rightarrow>
          if isinstance_SubprocessError e \<or> isinstance_FileNotFoundError e
          then Inr (linux_fallback h)
          else Inl e
      | Inr stdout \<Rightarrow>
          if str_in ''glibc'' stdout \<or> str_in ''GLIBC'' stdout
          then (case re_search_version stdout of
                  Some glibc_version \<Rightarrow> Inr (glibc_tag glibc_version)
                | None \<Rightarrow> Inr (linux_fallback h))
          else Inr (linux_fallback h))"

definition get_macos_platform_tag :: "host \<Rightarrow> string \<Rightarrow> string" where
  "get_macos_platform_tag h plat =
     (let arch = lower (machine h) in
      if arch = ''arm64'' then ''macosx_11_0_arm64'' else ''macosx_10_15_x86_64'')"

definition get_windows_platform_tag :: "host \<Rightarrow> string \<Rightarrow> string" where
  "get_windows_platform_tag h plat =
     (if str_in ''amd64'' plat \<or> str_in ''x64'' plat then ''win_amd64'' else ''win32'')"

text \<open>\<^verbatim>\<open>get_tag\<close>; the triple is what \<^verbatim>\<open>super().get_tag()\<close> returned.\<close>

definition get_tag :: "host \<Rightarrow> string \<times> string \<times> string \<Rightarrow> py_exception + string \<times> string \<times> string" where
  "get_tag h t =
     (case t of (python, abi, plat) \<Rightarrow>
        (let sys = lower (system h) in
         if sys = ''linux'' then
           (case get_linux_platform_tag h plat of
              Inl e \<Rightarrow> Inl e
            | Inr p \<Rightarrow> Inr (python, abi, p))
         else if sys = ''darwin'' then Inr (python, abi, get_macos_platform_tag h plat)
         else if sys = ''windows'' then Inr (python, abi, get_windows_platform_tag h plat)
         else Inr (python, abi, plat)))"

text \<open>The probe outcomes the resolver handles: the probe completed, or it raised an
  exception that the first \<^verbatim>\<open>except\<close> clause names.\<close>

definition probe_handled :: "host \<Rightarrow> bool" where
  "probe_handled h =
     (case ldd h of
        Inl e \<Rightarrow> isinstance_SubprocessError e \<or> isinstance_FileNotFoundError e
      | Inr out \<Rightarrow> True)"

text \<open>The probe gave no version: it raised, or its output has no glibc marker or no
  \<open>major.minor\<close> number.\<close>

definition probe_inconclusive :: "host \<Rightarrow> bool" where
  "probe_inconclusive h =
     (case ldd h of
        Inl e \<Rightarrow> True
      | Inr out \<Rightarrow>
          \<not> ((str_in ''glibc'' out \<or> str_in ''GLIBC'' out) \<and> re_search_version out \<noteq> None))"

section \<open>Path strings (os.path on a POSIX host)\<close>

text \<open>The functions of \<^verbatim>\<open>posixpath\<close> that \<^verbatim>\<open>setup.py\<close> calls, on path strings
  with the separator \<open>/\<close>.\<close>

text \<open>\<^verbatim>\<open>s.split('/')\<close>: never the empty list.\<close>

fun split_sep :: "string \<Rightarrow> string list" where
  "split_sep [] = [[]]"
| "split_sep (c # cs) =
     (if c = CHR ''/'' then [] # split_sep cs
      else (c # hd (split_sep cs)) # tl (split_sep cs))"

text \<open>\<^verbatim>\<open>'/'.join(xs)\<close>.\<close>

fun sep_join :: "string list \<Rightarrow> string" where
  "sep_join [] = []"
| "sep_join [x] = x"
| "sep_join (x # y # ys) = x @ [CHR ''/''] @ sep_join (y # ys)"

definition isabs :: "string \<Rightarrow> bool" where
  "isabs s = (case s of [] \<Rightarrow> False | c # cs \<Rightarrow> c = CHR ''/'')"

text \<open>\<^verbatim>\<open>os.path.join(a, b)\<close> for two arguments.\<close>

definition join :: "string \<Rightarrow> string \<Rightarrow> string" where
  "join a b =
     (if isabs b then b
      else if a = [] \<or> last a = CHR ''/'' then a @ b
      else a @ [CHR ''/''] @ b)"

text \<open>\<^verbatim>\<open>os.path.dirname\<close>: the text up to the last separator, with trailing separators
  stripped unless it consists of separators only.\<close>

definition dirname :: "string \<Rightarrow> string" where
  "dirname p =
     (let head = rev (dropWhile (\<lambda>c. c \<noteq> CHR ''/'') (rev p)) in
      if head \<noteq> [] \<and> \<not> list_all (\<lambda>c. c = CHR ''/'') head
      then rev (dropWhile (\<lambda>c. c = CHR ''/'') (rev head))
      else head)"

definition basename :: "string \<Rightarrow> string" where
  "basename p = rev (takeWhile (\<lambda>c. c \<noteq> CHR ''/'') (rev p))"

text \<open>One round of the loop of \<^verbatim>\<open>os.path.normpath\<close> over the components.\<close>

definition norm_step :: "nat \<Rightarrow> string list \<Rightarrow> string \<Rightarrow> string list" where
  "norm_step initial_slashes new_comps c =
     (if c = [] \<or> c = ''.'' then new_comps
      else if c \<noteq> ''..'' \<or> (initial_slashes = 0 \<and> new_comps = [])
              \<or> (new_comps \<noteq> [] \<and> last new_comps = ''..'')
           then new_comps @ [c]
      else if new_comps \<noteq> [] then butlast new_comps
      else new_comps)"

definition normpath :: "string \<Rightarrow> string" where
  "normpath path =
     (if path = [] then ''.''
      else
        (let initial_slashes =
               (if isabs path
                then (if prefix ''//'' path \<and> \<not> prefix ''///'' path then 2 else 1)
                else (0::nat));
             new_comps = foldl (norm_step initial_slashes) [] (split_sep path);
             p = replicate initial_slashes (CHR ''/'') @ sep_join new_comps
         in if p = [] then ''.'' else p))"

text \<open>\<^verbatim>\<open>os.path.abspath\<close>; \<open>cwd\<close> is what \<^verbatim>\<open>os.getcwd()\<close> returns.\<close>

definition abspath :: "string \<Rightarrow> string \<Rightarrow> string" where
  "abspath cwd path = normpath (if isabs path then path else join cwd path)"

text \<open>\<^verbatim>\<open>os.path.relpath(path, start)\<close>: on a POSIX host it raises ValueError for the
  empty path only.\<close>

definition relpath :: "string \<Rightarrow> string \<Rightarrow> string \<Rightarrow> py_exception + string" where
  "relpath cwd path start =
     (if path = [] then Inl ValueError
      else
        (let start_list = filter (\<lambda>x. x \<noteq> []) (split_sep (abspath cwd start));
             path_list = filter (\<lambda>x. x \<noteq> []) (split_sep (abspath cwd path));
             i = length (longest_common_prefix start_list path_list);
             rel_list = replicate (length start_list - i) ''..'' @ drop i path_list
         in if rel_list = [] then Inr ''.'' else Inr (sep_join rel_list)))"

text \<open>\<^verbatim>\<open>PurePath.suffix\<close> of a file name: the text from the last dot on, unless that
  dot is the first or the last character.\<close>

definition path_suffix :: "string \<Rightarrow> string" where
  "path_suffix name =
     (let ext = rev (takeWhile (\<lambda>c. c \<noteq> CHR ''.'') (rev name)) in
      if CHR ''.'' \<in> set name \<and> ext \<noteq> [] \<and> length ext + 1 < length name
      then CHR ''.'' # ext
      else [])"

section \<open>The filesystem\<close>

text \<open>
  A filesystem is a list of entries, each at a physical location (the names from the
  root down) and either a regular file with its permission bits and contents, a
  directory, or a symbolic link with its target text; the root is always a directory.
  The order of the list is the order in which a directory lists its entries. The state
  also holds the working directory of the process.
\<close>

type_synonym path = "string list"

datatype node = File "12 word" string | Dir | Symlink string

record fs =
  entries :: "(path \<times> node) list"
  cwd :: string

definition lookup :: "(path \<times> node) list \<Rightarrow> path \<Rightarrow> node option" where
  "lookup es p = (if p = [] then Some Dir else map_of es p)"

text \<open>A name a directory can hold.\<close>

definition valid_name :: "string \<Rightarrow> bool" where
  "valid_name c = (c \<noteq> [] \<and> c \<noteq> ''.'' \<and> c \<noteq> ''..'' \<and> CHR ''/'' \<notin> set c)"

text \<open>The components of a path string that a lookup acts on: empty components and
  \<open>.\<close> stay where they are. (A trailing separator after the name of a file is therefore
  not an error here.)\<close>

definition comps :: "string \<Rightarrow> string list" where
  "comps p = filter (\<lambda>c. c \<noteq> [] \<and> c \<noteq> ''.'') (split_sep p)"

text \<open>
  Path lookup as the kernel does it, from the directory \<open>cur\<close>: \<open>..\<close> goes to the
  parent, a symbolic link met on the way is followed (its target is walked from the
  directory that holds the link, or from the root when it is absolute), at most \<open>fuel\<close>
  times per lookup. The last component is followed only when \<open>follow\<close> is set
  (\<^verbatim>\<open>stat\<close> against \<^verbatim>\<open>lstat\<close>). The result is the physical location the path names;
  the entry there may be missing when only the last component is.
\<close>

fun walk :: "(path \<times> node) list \<Rightarrow> bool \<Rightarrow> nat \<Rightarrow> path \<Rightarrow> string list \<Rightarrow> py_exception + path" where
  "walk es follow fuel cur [] = Inr cur"
| "walk es follow fuel cur (c # rest) =
     (if c = ''..'' then walk es follow fuel (butlast cur) rest
      else
        (case lookup es (cur @ [c]) of
           None \<Rightarrow> if rest = [] then Inr (cur @ [c]) else Inl (FileNotFoundError c)
         | Some Dir \<Rightarrow> walk es follow fuel (cur @ [c]) rest
         | Some (File m d) \<Rightarrow> if rest = [] then Inr (cur @ [c]) else Inl NotADirectoryError
         | Some (Symlink t) \<Rightarrow>
             if rest = [] \<and> \<not> follow then Inr (cur @ [c])
             else
               (case fuel of
                  0 \<Rightarrow> Inl OtherOSError
                | Suc k \<Rightarrow> walk es follow k (if isabs t then [] else cur) (comps t @ rest))))"

definition resolve :: "fs \<Rightarrow> bool \<Rightarrow> string \<Rightarrow> py_exception + path" where
  "resolve s follow p =
     (if p = [] then Inl (FileNotFoundError p)
      else walk (entries s) follow 40 (if isabs p then [] else comps (cwd s)) (comps p))"

text \<open>\<^verbatim>\<open>os.stat\<close> and \<^verbatim>\<open>os.lstat\<close>: the entry, together with where it is.\<close>

definition os_stat :: "fs \<Rightarrow> string \<Rightarrow> py_exception + path \<times> node" where
  "os_stat s p =
     (case resolve s True p of
        Inl e \<Rightarrow> Inl e
      | Inr q \<Rightarrow>
          (case lookup (entries s) q of
             None \<Rightarrow> Inl (FileNotFoundError p)
           | Some n \<Rightarrow> Inr (q, n)))"

definition os_lstat :: "fs \<Rightarrow> string \<Rightarrow> py_exception + path \<times> node" where
  "os_lstat s p =
     (case resolve s False p of
        Inl e \<Rightarrow> Inl e
      | Inr q \<Rightarrow>
          (case lookup (entries s) q of
             None \<Rightarrow> Inl (FileNotFoundError p)
           | Some n \<Rightarrow> Inr (q, n)))"

text \<open>\<^verbatim>\<open>st_mode\<close>: the file type bits and the permission bits (directories and links
  carry fixed permission bits here).\<close>

fun st_mode :: "node \<Rightarrow> nat" where
  "st_mode (File m d) = 32768 OR unat m"
| "st_mode Dir = 16384 OR 493"
| "st_mode (Symlink t) = 40960 OR 511"

text \<open>\<^verbatim>\<open>os.path.exists\<close>, \<^verbatim>\<open>os.path.isdir\<close> (both follow links) and
  \<^verbatim>\<open>os.path.islink\<close>; an OSError of the lookup makes them False.\<close>

definition os_path_exists :: "fs \<Rightarrow> string \<Rightarrow> bool" where
  "os_path_exists s p = (case os_stat s p of Inl e \<Rightarrow> False | Inr r \<Rightarrow> True)"

definition os_path_isdir :: "fs \<Rightarrow> string \<Rightarrow> bool" where
  "os_path_isdir s p = (case os_stat s p of Inr (q, Dir) \<Rightarrow> True | _ \<Rightarrow> False)"

definition os_path_islink :: "fs \<Rightarrow> string \<Rightarrow> bool" where
  "os_path_islink s p = (case os_lstat s p of Inr (q, Symlink t) \<Rightarrow> True | _ \<Rightarrow> False)"

definition os_readlink :: "fs \<Rightarrow> string \<Rightarrow> py_exception + string" where
  "os_readlink s p =
     (case os_lstat s p of
        Inl e \<Rightarrow> Inl e
      | Inr (q, Symlink t) \<Rightarrow> Inr t
      | Inr (q, n) \<Rightarrow> Inl OtherOSError)"

text \<open>The names in the directory at \<open>q\<close>, in listing order.\<close>

definition children :: "(path \<times> node) list \<Rightarrow> path \<Rightarrow> string list" where
  "children es q =
     remdups (map (\<lambda>e. last (fst e))
       (filter (\<lambda>e. fst e \<noteq> [] \<and> butlast (fst e) = q \<and> valid_name (last (fst e))) es))"

definition os_listdir :: "fs \<Rightarrow> string \<Rightarrow> py_exception + string list" where
  "os_listdir s p =
     (case os_stat s p of
        Inl e \<Rightarrow> Inl e
      | Inr (q, Dir) \<Rightarrow> Inr (children (entries s) q)
      | Inr (q, n) \<Rightarrow> Inl NotADirectoryError)"

subsection \<open>Operations that change the filesystem\<close>

definition os_unlink :: "fs \<Rightarrow> string \<Rightarrow> py_exception + fs" where
  "os_unlink s p =
     (case os_lstat s p of
        Inl e \<Rightarrow> Inl e
      | Inr (q, Dir) \<Rightarrow> Inl IsADirectoryError
      | Inr (q, n) \<Rightarrow> Inr (s\<lparr>entries := AList.delete q (entries s)\<rparr>))"

text \<open>\<^verbatim>\<open>os.symlink(target, p)\<close>: fails when anything, a dangling link included, is at
  \<open>p\<close>.\<close>

definition os_symlink :: "fs \<Rightarrow> string \<Rightarrow> string \<Rightarrow> py_exception + fs" where
  "os_symlink s target p =
     (case resolve s False p of
        Inl e \<Rightarrow> Inl e
      | Inr q \<Rightarrow>
          if target = [] then Inl (FileNotFoundError p)
          else
            (case lookup (entries s) q of
               Some n \<Rightarrow> Inl FileExistsError
             | None \<Rightarrow> Inr (s\<lparr>entries := AList.update q (Symlink target) (entries s)\<rparr>)))"

text \<open>\<^verbatim>\<open>shutil.rmtree(p)\<close>: refuses a symbolic link and anything that is not a
  directory; removes the directory with all that is below it.\<close>

definition shutil_rmtree :: "fs \<Rightarrow> string \<Rightarrow> py_exception + fs" where
  "shutil_rmtree s p =
     (case os_lstat s p of
        Inl e \<Rightarrow> Inl e
      | Inr (q, Symlink t) \<Rightarrow> Inl OtherOSError
      | Inr (q, File m d) \<Rightarrow> Inl NotADirectoryError
      | Inr (q, Dir) \<Rightarrow> Inr (s\<lparr>entries := filter (\<lambda>e. \<not> prefix q (fst e)) (entries s)\<rparr>))"

text \<open>
  \<^verbatim>\<open>os.makedirs(p, exist_ok=True)\<close>: goes down the components and creates each
  directory that is missing. A symbolic link on the way counts when it leads to a
  directory. The filesystem is returned also when an exception is raised: directories
  created before the failing component stay.
\<close>

fun mkdirs :: "(path \<times> node) list \<Rightarrow> path \<Rightarrow> string list \<Rightarrow> py_exception option \<times> (path \<times> node) list" where
  "mkdirs es cur [] = (None, es)"
| "mkdirs es cur (c # rest) =
     (if c = ''..'' then mkdirs es (butlast cur) rest
      else
        (case lookup es (cur @ [c]) of
           None \<Rightarrow> mkdirs (AList.update (cur @ [c]) Dir es) (cur @ [c]) rest
         | Some Dir \<Rightarrow> mkdirs es (cur @ [c]) rest
         | Some (File m d) \<Rightarrow>
             (Some (if rest = [] then FileExistsError else NotADirectoryError), es)
         | Some (Symlink t) \<Rightarrow>
             (case walk es True 40 (if isabs t then [] else cur) (comps t) of
                Inl e \<Rightarrow> (Some e, es)
              | Inr q \<Rightarrow>
                  (case lookup es q of
                     Some Dir \<Rightarrow> mkdirs es q rest
                   | Some n \<Rightarrow>
                       (Some (if rest = [] then FileExistsError else NotADirectoryError), es)
                   | None \<Rightarrow>
                       (Some (if rest = [] then FileExistsError else FileNotFoundError c),
                        es)))))"

definition os_makedirs :: "fs \<Rightarrow> string \<Rightarrow> py_exception option \<times> fs" where
  "os_makedirs s p =
     (if p = [] then (Some (FileNotFoundError p), s)
      else
        (case mkdirs (entries s) (if isabs p then [] else comps (cwd s)) (comps p) of
           (r, es) \<Rightarrow> (r, s\<lparr>entries := es\<rparr>)))"

text \<open>
  \<^verbatim>\<open>shutil.copy2(src, dst)\<close>: when \<open>dst\<close> is a directory the file goes into it under
  the name of \<open>src\<close>; both paths are followed through links; the destination file is
  created or overwritten and receives the contents and the permission bits of the source.
\<close>

definition shutil_copy2 :: "fs \<Rightarrow> string \<Rightarrow> string \<Rightarrow> py_exception + fs" where
  "shutil_copy2 s src dst =
     (let dst' = (if os_path_isdir s dst then join dst (basename src) else dst) in
      case os_stat s src of
        Inl e \<Rightarrow> Inl e
      | Inr (qs, Dir) \<Rightarrow> Inl IsADirectoryError
      | Inr (qs, Symlink t) \<Rightarrow> Inl OtherOSError
      | Inr (qs, File m d) \<Rightarrow>
          (case resolve s True dst' of
             Inl e \<Rightarrow> Inl e
           | Inr qd \<Rightarrow>
               if qd = qs then Inl SameFileError
               else
                 (case lookup (entries s) qd of
                    Some Dir \<Rightarrow> Inl IsADirectoryError
                  | Some (Symlink t) \<Rightarrow> Inl OtherOSError
                  | _ \<Rightarrow> Inr (s\<lparr>entries := AList.update qd (File m d) (entries s)\<rparr>))))"

text \<open>\<^verbatim>\<open>os.chmod(p, mode)\<close> follows links and keeps the twelve permission bits of
  \<open>mode\<close>.\<close>

definition os_chmod :: "fs \<Rightarrow> string \<Rightarrow> nat \<Rightarrow> py_exception + fs" where
  "os_chmod s p mode =
     (case os_stat s p of
        Inl e \<Rightarrow> Inl e
      | Inr (q, File m d) \<Rightarrow> Inr (s\<lparr>entries := AList.update q (File (of_nat mode) d) (entries s)\<rparr>)
      | Inr (q, n) \<Rightarrow> Inr s)"

section \<open>The build command (class CustomBuildExt)\<close>

subsection \<open>copy\_all\_files\<close>

text \<open>
  The outcome of a step that works on the filesystem: the exception it raised, if any,
  and the filesystem it leaves behind (what was written before an exception stays).
\<close>

type_synonym outcome = "py_exception option \<times> fs"

text \<open>
  The branch of \<^verbatim>\<open>copy_all_files\<close> for a symbolic link (lines 85 to 107):
  read the target, make a relative target absolute by joining it to the directory of the
  source link, remove what the destination path holds, then create the link, first with
  the target relative to the directory of the destination path and, when that raises
  OSError or ValueError, with the absolute target.
\<close>

definition copy_symlink :: "fs \<Rightarrow> string \<Rightarrow> string \<Rightarrow> outcome" where
  "copy_symlink s source_path destination_path =
     (case os_readlink s source_path of
        Inl e \<Rightarrow> (Some e, s)
      | Inr target \<Rightarrow>
          (let link_target =
                 (if \<not> isabs target then join (dirname source_path) target else target)
           in
           case (if os_path_exists s destination_path
                 then (if os_path_islink s destination_path
                       then os_unlink s destination_path
                       else shutil_rmtree s destination_path)
                 else Inr s) of
             Inl e \<Rightarrow> (Some e, s)
           | Inr s1 \<Rightarrow>
               (case (case relpath (cwd s1) link_target (dirname destination_path) of
                        Inl e \<Rightarrow> Inl e
                      | Inr rel_target \<Rightarrow> os_symlink s1 rel_target destination_path) of
                  Inr s2 \<Rightarrow> (None, s2)
                | Inl e \<Rightarrow>
                    if isinstance_OSError e \<or> isinstance_ValueError e
                    then (case os_symlink s1 link_target destination_path of
                            Inl e' \<Rightarrow> (Some e', s1)
                          | Inr s2 \<Rightarrow> (None, s2))
                    else (Some e, s1))))"

text \<open>
  \<^verbatim>\<open>copy_all_files\<close> and its loop over \<^verbatim>\<open>os.listdir(source_dir)\<close>. The
  recursion follows the directories of the source, which the copy itself may extend (a
  destination inside the source), so the depth of the recursion is bounded by a counter
  and \<open>None\<close> stands for a run that exceeds it.
\<close>

fun copy_all_files :: "nat \<Rightarrow> fs \<Rightarrow> string \<Rightarrow> string \<Rightarrow> outcome option"
  and copy_items :: "nat \<Rightarrow> fs \<Rightarrow> string \<Rightarrow> string \<Rightarrow> string list \<Rightarrow> outcome option" where
  "copy_all_files 0 s source_dir destination_dir = None"
| "copy_all_files (Suc n) s source_dir destination_dir =
     (case os_makedirs s destination_dir of
        (Some e, s1) \<Rightarrow> Some (Some e, s1)
      | (None, s1) \<Rightarrow>
          (case os_listdir s1 source_dir of
             Inl e \<Rightarrow> Some (Some e, s1)
           | Inr items \<Rightarrow> copy_items n s1 source_dir destination_dir items))"
| "copy_items n s source_dir destination_dir [] = Some (None, s)"
| "copy_items n s source_dir destination_dir (item # rest) =
     (case (if os_path_islink s (join source_dir item)
            then Some (copy_symlink s (join source_dir item) (join destination_dir item))
            else if os_path_isdir s (join source_dir item)
            then copy_all_files n s (join source_dir item) (join destination_dir item)
            else (case shutil_copy2 s (join source_dir item) (join destination_dir item) of
                    Inl e \<Rightarrow> Some (Some e, s)
                  | Inr s1 \<Rightarrow> Some (None, s1))) of
        None \<Rightarrow> None
      | Some (Some e, s1) \<Rightarrow> Some (Some e, s1)
      | Some (None, s1) \<Rightarrow> copy_items n s1 source_dir destination_dir rest)"

subsection \<open>build\_extension\<close>

text \<open>An extension (class PrebuiltExtension): its name and its library directory, made
  absolute when the extension is created.\<close>

record extension =
  ext_name :: string
  lib_dir :: string

definition PrebuiltExtension :: "fs \<Rightarrow> string \<Rightarrow> string \<Rightarrow> extension" where
  "PrebuiltExtension s name dir = \<lparr>ext_name = name, lib_dir = abspath (cwd s) dir\<rparr>"

text \<open>
  What \<^verbatim>\<open>Path(d).rglob('*')\<close> finds: every entry below the directory \<open>d\<close> that is
  reached through directories (links to directories are listed, not entered).
\<close>

definition below :: "(path \<times> node) list \<Rightarrow> path \<Rightarrow> path \<Rightarrow> bool" where
  "below es q p =
     (strict_prefix q p \<and> list_all valid_name (drop (length q) p) \<and> lookup es p \<noteq> None \<and>
      list_all (\<lambda>r. lookup es r = Some Dir)
        (filter (\<lambda>r. strict_prefix q r \<and> r \<noteq> p) (prefixes p)))"

definition rglob :: "fs \<Rightarrow> string \<Rightarrow> path list" where
  "rglob s d =
     (case os_stat s d of
        Inr (q, Dir) \<Rightarrow> remdups (filter (below (entries s) q) (map fst (entries s)))
      | _ \<Rightarrow> [])"

text \<open>A text between single quotes, as the messages of the script show a path.\<close>

definition quoted :: "string \<Rightarrow> string" where
  "quoted x = [CHR 0x27] @ x @ [CHR 0x27]"

text \<open>
  \<^verbatim>\<open>build_extension\<close>. \<open>ext_fullpath\<close> stands for the method
  \<^verbatim>\<open>get_ext_fullpath\<close> of setuptools. The last statement,
  \<^verbatim>\<open>_record_installed_files\<close>, only prints.
\<close>

definition build_extension :: "nat \<Rightarrow> (string \<Rightarrow> string) \<Rightarrow> fs \<Rightarrow> extension \<Rightarrow> outcome option" where
  "build_extension n ext_fullpath s ext =
     (if \<not> os_path_isdir s (lib_dir ext)
      then Some (Some (FileNotFoundError
             (''Directory '' @ quoted (lib_dir ext) @ '' does not exist. '' @
              ''Please compile the necessary components with CMake as described in the README.'')),
             s)
      else if rglob s (lib_dir ext) = []
      then Some (Some (FileNotFoundError
             (''Directory '' @ quoted (lib_dir ext) @ '' is empty. '' @
              ''Please run '' @ quoted ''make install'' @
              '' to install the compiled libraries first.'')),
             s)
      else
        (let extdir = abspath (cwd s) (dirname (ext_fullpath (ext_name ext))) in
         case os_makedirs s extdir of
           (Some e, s1) \<Rightarrow> Some (Some e, s1)
         | (None, s1) \<Rightarrow> copy_all_files n s1 (lib_dir ext) extdir))"

subsection \<open>\_fix\_file\_permissions\<close>

text \<open>\<^verbatim>\<open>DirEntry.is_dir()\<close> for the entry at \<open>p\<close>: a link counts when it leads to a
  directory.\<close>

definition entry_is_dir :: "(path \<times> node) list \<Rightarrow> path \<Rightarrow> bool" where
  "entry_is_dir es p =
     (case lookup es p of
        Some Dir \<Rightarrow> True
      | Some (Symlink t) \<Rightarrow>
          (case walk es True 40 (if isabs t then [] else butlast p) (comps t) of
             Inr r \<Rightarrow> lookup es r = Some Dir
           | Inl e \<Rightarrow> False)
      | _ \<Rightarrow> False)"

text \<open>The greatest depth of an entry; no directory lies deeper.\<close>

definition depth_bound :: "(path \<times> node) list \<Rightarrow> nat" where
  "depth_bound es = foldr (\<lambda>e m. max (length (fst e)) m) es 0"

lemma depth_bound_ge: "(p, n) \<in> set es \<Longrightarrow> length p \<le> depth_bound es"
  unfolding depth_bound_def by (induction es) auto

lemma lookup_depth_bound: "lookup es (q @ [d]) = Some n \<Longrightarrow> length q < depth_bound es"
  unfolding lookup_def using depth_bound_ge [of "q @ [d]" n es]
  by (auto dest!: map_of_SomeD)

text \<open>
  \<^verbatim>\<open>os.walk(root)\<close>, top down, not following links: for the directory at \<open>q\<close>,
  named \<open>root\<close>, the triple of its name, the names of its directories and the names of
  its other entries, then the walks of its directories that are not links.
\<close>

function walk_tree :: "(path \<times> node) list \<Rightarrow> string \<Rightarrow> path \<Rightarrow> (string \<times> string list \<times> string list) list" where
  "walk_tree es root q =
     (root, filter (\<lambda>d. entry_is_dir es (q @ [d])) (children es q),
            filter (\<lambda>d. \<not> entry_is_dir es (q @ [d])) (children es q))
     # concat (map (\<lambda>d. walk_tree es (join root d) (q @ [d]))
         (filter (\<lambda>d. lookup es (q @ [d]) = Some Dir) (children es q)))"
  by pat_completeness auto
termination
  by (relation "measure (\<lambda>(es, root, q). Suc (depth_bound es) - length q)")
    (auto dest: lookup_depth_bound)

definition os_walk :: "fs \<Rightarrow> string \<Rightarrow> (string \<times> string list \<times> string list) list" where
  "os_walk s root =
     (case os_stat s root of
        Inr (q, Dir) \<Rightarrow> walk_tree (entries s) root q
      | _ \<Rightarrow> [])"

text \<open>The test of line 126 on a path and its file name.\<close>

definition is_shared_library :: "string \<Rightarrow> string \<Rightarrow> bool" where
  "is_shared_library filepath file =
     (suffix ''.so'' filepath \<or> suffix ''.dylib'' filepath \<or> str_in ''.so.'' file)"

text \<open>Line 127: \<^verbatim>\<open>os.chmod(filepath, os.stat(filepath).st_mode | 0o755)\<close>.\<close>

definition fix_file :: "fs \<Rightarrow> string \<Rightarrow> py_exception + fs" where
  "fix_file s filepath =
     (case os_stat s filepath of
        Inl e \<Rightarrow> Inl e
      | Inr (q, n) \<Rightarrow> os_chmod s filepath (st_mode n OR 493))"

text \<open>The loop over the files of one directory of the walk.\<close>

fun fix_files :: "fs \<Rightarrow> string \<Rightarrow> string list \<Rightarrow> outcome" where
  "fix_files s root [] = (None, s)"
| "fix_files s root (file # files) =
     (if is_shared_library (join root file) file
      then (case fix_file s (join root file) of
              Inl e \<Rightarrow> (Some e, s)
            | Inr s1 \<Rightarrow> fix_files s1 root files)
      else fix_files s root files)"

text \<open>The loop over the walk. The walk is taken from the filesystem as it is when the
  loop starts: the body only changes permission bits, which no listing depends on.\<close>

fun fix_walk :: "fs \<Rightarrow> (string \<times> string list \<times> string list) list \<Rightarrow> outcome" where
  "fix_walk s [] = (None, s)"
| "fix_walk s ((root, dirs, files) # triples) =
     (case fix_files s root files of
        (Some e, s1) \<Rightarrow> (Some e, s1)
      | (None, s1) \<Rightarrow> fix_walk s1 triples)"

fun fix_file_permissions :: "(string \<Rightarrow> string) \<Rightarrow> fs \<Rightarrow> extension list \<Rightarrow> outcome" where
  "fix_file_permissions ext_fullpath s [] = (None, s)"
| "fix_file_permissions ext_fullpath s (ext # exts) =
     (let extdir = abspath (cwd s) (dirname (ext_fullpath (ext_name ext))) in
      if os_path_exists s extdir
      then (case fix_walk s (os_walk s extdir) of
              (Some e, s1) \<Rightarrow> (Some e, s1)
            | (None, s1) \<Rightarrow> fix_file_permissions ext_fullpath s1 exts)
      else fix_file_permissions ext_fullpath s exts)"

subsection \<open>run\<close>

fun build_extensions :: "nat \<Rightarrow> (string \<Rightarrow> string) \<Rightarrow> fs \<Rightarrow> extension list \<Rightarrow> outcome option" where
  "build_extensions n ext_fullpath s [] = Some (None, s)"
| "build_extensions n ext_fullpath s (ext # exts) =
     (case build_extension n ext_fullpath s ext of
        None \<Rightarrow> None
      | Some (Some e, s1) \<Rightarrow> Some (Some e, s1)
      | Some (None, s1) \<Rightarrow> build_extensions n ext_fullpath s1 exts)"

definition run :: "nat \<Rightarrow> (string \<Rightarrow> string) \<Rightarrow> fs \<Rightarrow> extension list \<Rightarrow> outcome option" where
  "run n ext_fullpath s extensions =
     (case build_extensions n ext_fullpath s extensions of
        None \<Rightarrow> None
      | Some (Some e, s1) \<Rightarrow> Some (Some e, s1)
      | Some (None, s1) \<Rightarrow> Some (fix_file_permissions ext_fullpath s1 extensions))"

section \<open>The prerequisite check\<close>

definition library_extensions :: "string list" where
  "library_extensions = [''.so'', ''.dylib'', ''.dll'', ''.pyd'', ''.a'', ''.lib'']"

definition has_libs :: "fs \<Rightarrow> string \<Rightarrow> bool" where
  "has_libs s d = list_ex (\<lambda>p. path_suffix (last p) \<in> set library_extensions) (rglob s d)"

text \<open>\<^verbatim>\<open>"\n".join(errors)\<close>.\<close>

fun newline_join :: "string list \<Rightarrow> string" where
  "newline_join [] = []"
| "newline_join [x] = x"
| "newline_join (x # y # ys) = x @ [CHR 0x0A] @ newline_join (y # ys)"

text \<open>The text that lines 271 to 275 append to the message.\<close>

definition instructions :: string where
  "instructions =
     [CHR 0x0A, CHR 0x0A] @ ''Please compile the C++ SDK first:'' @ [CHR 0x0A] @
     ''1. mkdir build && cd build'' @ [CHR 0x0A] @
     ''2. cmake -Dpybind11_DIR=$(python -c '' @
       quoted ''import pybind11; print(pybind11.get_cmake_dir())'' @ '') ..'' @ [CHR 0x0A] @
     ''3. make -j4'' @ [CHR 0x0A] @
     ''4. make install'' @ [CHR 0x0A]"

text \<open>
  \<^verbatim>\<open>check_prerequisites\<close>, with the library directory \<open>d\<close> (the script takes
  \<^verbatim>\<open>install/lib\<close> beside itself). \<^verbatim>\<open>Path.exists\<close> follows links as
  \<^verbatim>\<open>os.path.exists\<close> does; \<^verbatim>\<open>Path.iterdir\<close> lists the directory and raises
  where \<^verbatim>\<open>os.listdir\<close> does.
\<close>

definition check_prerequisites :: "fs \<Rightarrow> string \<Rightarrow> py_exception + unit" where
  "check_prerequisites s d =
     (case (if \<not> os_path_exists s d
            then Inr [''Directory '' @ quoted d @ '' does not exist.'']
            else (case os_listdir s d of
                    Inl e \<Rightarrow> Inl e
                  | Inr items \<Rightarrow>
                      Inr (if items = []
                           then [''Directory '' @ quoted d @ '' is empty.'']
                           else []))) of
        Inl e \<Rightarrow> Inl e
      | Inr errors1 \<Rightarrow>
          (let errors =
                 (if os_path_exists s d
                  then (if \<not> has_libs s d
                        then errors1 @ [''No library files found in '' @ quoted d]
                        else errors1)
                  else errors1)
           in if errors \<noteq> []
              then Inl (RuntimeError (newline_join errors @ instructions))
              else Inr ()))"

text \<open>
  The statements of the module around the call (lines 280 to 287): a RuntimeError is
  printed as a warning and \<^verbatim>\<open>setup()\<close> is called; any other exception ends the run
  before \<^verbatim>\<open>setup()\<close>.
\<close>

datatype module_run = Setup_called "string list" | Run_ended py_exception

definition module_level :: "fs \<Rightarrow> string \<Rightarrow> module_run" where
  "module_level s d =
     (case check_prerequisites s d of
        Inr u \<Rightarrow> Setup_called []
      | Inl (RuntimeError msg) \<Rightarrow>
          Setup_called [''Warning: '' @ msg,
            ''Continuing setup, but installation may fail if libraries are missing.'']
      | Inl e \<Rightarrow> Run_ended e)"

section \<open>Auxiliary definitions for the statements\<close>

text \<open>The message of \<^verbatim>\<open>check_prerequisites\<close> for a list of violations: the lines of the
  list, then the build instructions.\<close>

definition render :: "string list \<Rightarrow> string" where
  "render errors = newline_join errors @ instructions"

text \<open>A project whose library directory exists and is empty, and one where a regular
  file stands at the path of the library directory.\<close>

definition fs_lib_is_file :: fs where
  "fs_lib_is_file = \<lparr>entries = [([''p''], Dir), ([''p'', ''install''], Dir),
     ([''p'', ''install'', ''lib''], File 420 ''not a directory'')], cwd = ''/p''\<rparr>"

definition fs_empty_lib :: fs where
  "fs_empty_lib = \<lparr>entries = [([''p''], Dir), ([''p'', ''install''], Dir),
     ([''p'', ''install'', ''lib''], Dir)], cwd = ''/p''\<rparr>"

text \<open>Filesystems with a source tree \<open>/s\<close>, holding a library and a relative link to it,
  and a destination \<open>/d\<close>: a fresh one, one where a dangling link is in the way of the
  link, and one where a regular file is.\<close>

definition fs_fresh :: fs where
  "fs_fresh = \<lparr>entries = [([''s''], Dir), ([''s'', ''liba.so''], Symlink ''liba.so.1''),
     ([''s'', ''liba.so.1''], File 384 ''abc'')], cwd = ''/w''\<rparr>"

definition fs_dangling :: fs where
  "fs_dangling = \<lparr>entries = [([''s''], Dir), ([''s'', ''liba.so''], Symlink ''liba.so.1''),
     ([''s'', ''liba.so.1''], File 384 ''abc''), ([''d''], Dir),
     ([''d'', ''liba.so''], Symlink ''gone'')], cwd = ''/w''\<rparr>"

text \<open>The filesystem \<open>fs_fresh\<close> after its first copy into \<^verbatim>\<open>/d\<close>, and the same
  after \<^verbatim>\<open>os.chmod\<close> on \<^verbatim>\<open>/d/liba.so\<close>.\<close>

definition fs_first_copy :: fs where
  "fs_first_copy = \<lparr>entries = [([''s''], Dir), ([''s'', ''liba.so''], Symlink ''liba.so.1''),
     ([''s'', ''liba.so.1''], File 384 ''abc''), ([''d''], Dir),
     ([''d'', ''liba.so''], Symlink ''../s/liba.so.1''),
     ([''d'', ''liba.so.1''], File 384 ''abc'')], cwd = ''/w''\<rparr>"

definition fs_first_fixed :: fs where
  "fs_first_fixed = \<lparr>entries = [([''s''], Dir), ([''s'', ''liba.so''], Symlink ''liba.so.1''),
     ([''s'', ''liba.so.1''], File 493 ''abc''), ([''d''], Dir),
     ([''d'', ''liba.so''], Symlink ''../s/liba.so.1''),
     ([''d'', ''liba.so.1''], File 384 ''abc'')], cwd = ''/w''\<rparr>"

text \<open>A destination left by an earlier copy, when \<^verbatim>\<open>liba.so\<close> was a link to
  \<^verbatim>\<open>liba.so.1\<close> in the source, and a source in which \<^verbatim>\<open>liba.so\<close> has since become
  a regular file.\<close>

definition fs_stale_link :: fs where
  "fs_stale_link = \<lparr>entries = [([''s''], Dir), ([''s'', ''liba.so''], File 420 ''new''),
     ([''s'', ''liba.so.1''], File 420 ''old''), ([''d''], Dir),
     ([''d'', ''liba.so''], Symlink ''../s/liba.so.1''),
     ([''d'', ''liba.so.1''], File 420 ''old'')], cwd = ''/w''\<rparr>"

definition fs_file_in_the_way :: fs where
  "fs_file_in_the_way = \<lparr>entries = [([''s''], Dir), ([''s'', ''liba.so''], Symlink ''liba.so.1''),
     ([''s'', ''liba.so.1''], File 384 ''abc''), ([''d''], Dir),
     ([''d'', ''liba.so''], File 420 ''old'')], cwd = ''/w''\<rparr>"

text \<open>The same source with the destination directory in place and empty.\<close>

definition fs_staged :: fs where
  "fs_staged = \<lparr>entries = [([''s''], Dir), ([''s'', ''liba.so''], Symlink ''liba.so.1''),
     ([''s'', ''liba.so.1''], File 384 ''abc''), ([''d''], Dir)], cwd = ''/w''\<rparr>"

subsection \<open>Notions for the permission pass\<close>

text \<open>An entry without its permission bits, and a filesystem without them: what path
  lookup and directory listings depend on.\<close>

fun erase :: "node \<Rightarrow> node" where
  "erase (File m d) = File 0 d"
| "erase n = n"









definition ext_in_d :: "string \<Rightarrow> string" where
  "ext_in_d name = ''/d/'' @ name @ ''.so''"

section \<open>Properties of the platform tag resolver\<close>

lemma lower_Linux: "lower ''Linux'' = ''linux''"
  by (simp add: lower_def lower_char_def)

lemma suffix_glibc_tag: "suffix ''x86_64'' (glibc_tag v)"
  by (simp add: glibc_tag_def suffix_to_prefix)

lemma suffix_linux_fallback: "suffix ''x86_64'' (linux_fallback h)"
  by (simp add: linux_fallback_def suffix_to_prefix split: sum.splits bool.splits)

lemma linux_fallback_eq: "linux_fallback h = ''manylinux_2_34_x86_64''"
  by (simp add: linux_fallback_def split: sum.splits bool.splits)

lemma get_linux_platform_tag_suffix:
  "get_linux_platform_tag h plat = Inr p \<Longrightarrow> suffix ''x86_64'' p"
  unfolding get_linux_platform_tag_def
  by (auto simp: suffix_glibc_tag suffix_linux_fallback split: sum.splits option.splits if_splits)

lemma get_linux_platform_tag_machine:
  "get_linux_platform_tag (h\<lparr>machine := m\<rparr>) plat = get_linux_platform_tag h plat"
  by (simp add: get_linux_platform_tag_def linux_fallback_eq split: sum.splits option.splits)

text \<open>
  C1. The claim reads the detected version as a pair of numbers and asks for the highest
  threshold of 2.35, 2.34, 2.31, 2.17 not above it. The code compares the matched text
  with the thresholds as strings. For the output of a C library 2.9 the matched text is
  \<open>2.9\<close>, which is above \<open>2.35\<close> as a string, and the resolver answers with the 2.35
  tag where the claim asks for the oldest one.
\<close>

theorem linux_tag_glibc_2_9:
  "re_search_version ''ldd (Ubuntu GLIBC 2.9-4ubuntu6) 2.9'' = Some ''2.9'' \<and>
   get_linux_platform_tag
     \<lparr>system = ''Linux'', machine = ''x86_64'',
      ldd = Inr ''ldd (Ubuntu GLIBC 2.9-4ubuntu6) 2.9'', libc_exists = Inr True\<rparr>
     ''linux_x86_64'' = Inr ''manylinux_2_35_x86_64''"
  by (simp add: get_linux_platform_tag_def match_version_at_def isdigit_def glibc_tag_def
      str_ge_def)

text \<open>
  C9. On the Linux branch every returned tag ends in \<open>x86_64\<close>, and the result does not
  depend on what \<^verbatim>\<open>platform.machine()\<close> reports.
\<close>

theorem linux_tag_arch_hard_coded:
  assumes "lower (system h) = ''linux''"
    and "get_tag h (python, abi, plat) = Inr (python', abi', p)"
  shows "suffix ''x86_64'' p \<and>
         get_tag (h\<lparr>machine := m\<rparr>) (python, abi, plat) = Inr (python', abi', p)"
proof -
  from assms obtain q where q: "get_linux_platform_tag h plat = Inr q" and "p = q"
    and same: "python' = python" "abi' = abi"
    by (auto simp: get_tag_def split: sum.splits)
  then have "suffix ''x86_64'' p"
    using get_linux_platform_tag_suffix by blast
  moreover have "get_tag (h\<lparr>machine := m\<rparr>) (python, abi, plat) = Inr (python', abi', p)"
    using assms(1) q \<open>p = q\<close> same by (simp add: get_tag_def get_linux_platform_tag_machine)
  ultimately show ?thesis by simp
qed

theorem linux_tag_arch_hard_coded_witness:
  "suffix ''x86_64'' ''manylinux_2_35_x86_64'' \<and>
   get_tag \<lparr>system = ''Linux'', machine = ''aarch64'',
            ldd = Inr ''ldd (Ubuntu GLIBC 2.35-0ubuntu3.1) 2.35'', libc_exists = Inr True\<rparr>
     (''cp310'', ''cp310'', ''linux_aarch64'')
   = Inr (''cp310'', ''cp310'', ''manylinux_2_35_x86_64'')"
proof -
  let ?h = "\<lparr>system = ''Linux'', machine = ''x86_64'',
             ldd = Inr ''ldd (Ubuntu GLIBC 2.35-0ubuntu3.1) 2.35'', libc_exists = Inr True\<rparr>"
  have a: "lower (system ?h) = ''linux''"
    by (simp add: lower_Linux)
  have b: "get_tag ?h (''cp310'', ''cp310'', ''linux_aarch64'')
           = Inr (''cp310'', ''cp310'', ''manylinux_2_35_x86_64'')"
    by (simp add: get_tag_def lower_Linux get_linux_platform_tag_def match_version_at_def
        isdigit_def glibc_tag_def str_ge_def)
  show ?thesis
    using linux_tag_arch_hard_coded [OF a b, of "''aarch64''"] by simp
qed

text \<open>
  C6. The claim: for every host the resolver returns a tag and never raises. The first
  \<^verbatim>\<open>try\<close> of \<^verbatim>\<open>_get_linux_platform_tag\<close> catches SubprocessError and
  FileNotFoundError only. A probe that fails because \<^verbatim>\<open>ldd\<close> is missing
  (FileNotFoundError) is answered with the default tag, while a probe that fails because
  \<^verbatim>\<open>ldd\<close> is found but may not be executed (PermissionError, an OSError like the
  former) leaves the resolver.
\<close>

theorem get_tag_raises_on_uncaught_probe_error:
  "get_tag \<lparr>system = ''Linux'', machine = ''x86_64'',
            ldd = Inl PermissionError, libc_exists = Inr True\<rparr>
     (''cp310'', ''cp310'', ''linux_x86_64'') = Inl PermissionError \<and>
   get_tag \<lparr>system = ''Linux'', machine = ''x86_64'',
            ldd = Inl (FileNotFoundError ''ldd''), libc_exists = Inr True\<rparr>
     (''cp310'', ''cp310'', ''linux_x86_64'')
   = Inr (''cp310'', ''cp310'', ''manylinux_2_34_x86_64'')"
  by (simp add: get_tag_def lower_Linux get_linux_platform_tag_def linux_fallback_eq)

text \<open>
  The failures that do degrade: whenever the probe completes or raises SubprocessError
  or FileNotFoundError, the resolver returns a tag (with the Python and ABI tags
  unchanged), for every system name, architecture and probe output; and on Linux every
  such probe that gives no version is answered with \<open>manylinux_2_34_x86_64\<close>.
\<close>

lemma get_tag_total_when_probe_handled:
  assumes "probe_handled h"
  shows "(\<exists>p. get_tag h (python, abi, plat) = Inr (python, abi, p)) \<and>
         (if lower (system h) = ''linux'' \<and> probe_inconclusive h
          then get_tag h (python, abi, plat) = Inr (python, abi, ''manylinux_2_34_x86_64'')
          else True)"
  using assms
  by (auto simp: probe_handled_def probe_inconclusive_def get_tag_def
      get_linux_platform_tag_def linux_fallback_eq Let_def
      split: sum.splits option.splits)

text \<open>On the Linux branch an exception of the probe of any other class leaves the
  resolver.\<close>

lemma uncaught_probe_error_escapes:
  assumes "lower (system h) = ''linux''" and "ldd h = Inl e"
    and "\<not> isinstance_SubprocessError e" and "\<not> isinstance_FileNotFoundError e"
  shows "get_tag h (python, abi, plat) = Inl e"
  using assms by (simp add: get_tag_def get_linux_platform_tag_def)

section \<open>Properties of the build command and of the prerequisite check\<close>

declare walk_tree.simps [simp del]

lemma walk_nofollow_follow:
  "walk es f n cur cs = Inr q \<Longrightarrow> (\<And>t. lookup es q \<noteq> Some (Symlink t)) \<Longrightarrow>
   walk es True n cur cs = Inr q"
proof (induction es f n cur cs rule: walk.induct)
  case (1 es follow fuel cur)
  then show ?case by simp
next
  case (2 es follow fuel cur c rest)
  show ?case
  proof (cases "c = ''..''")
    case True
    with 2 show ?thesis by simp
  next
    case False
    show ?thesis
    proof (cases "lookup es (cur @ [c])")
      case None
      with "2.prems" False show ?thesis by (simp split: if_splits)
    next
      case (Some nd)
      show ?thesis
      proof (cases nd)
        case (File m d)
        with "2.prems" False Some show ?thesis by (simp split: if_splits)
      next
        case Dir
        with "2.prems" "2.IH"(2) False Some show ?thesis by simp
      next
        case (Symlink t)
        show ?thesis
        proof (cases "rest = [] \<and> \<not> follow")
          case True
          with "2.prems" False Some Symlink show ?thesis by auto
        next
          case nonempty: False
          show ?thesis
          proof (cases fuel)
            case 0
            with "2.prems" False Some Symlink nonempty show ?thesis by simp
          next
            case (Suc k)
            with "2.prems" "2.IH"(3) [OF False Some Symlink _ Suc] False Some Symlink nonempty
            show ?thesis by simp
          qed
        qed
      qed
    qed
  qed
qed

lemma lstat_stat:
  "os_lstat s p = Inr (q, n) \<Longrightarrow> (\<And>t. n \<noteq> Symlink t) \<Longrightarrow> os_stat s p = Inr (q, n)"
  unfolding os_lstat_def os_stat_def resolve_def
  using walk_nofollow_follow [of "entries s" False 40 _ "comps p" q]
  by (auto split: if_splits sum.splits option.splits)

text \<open>
  C10. When the entry of the source is a symbolic link and the destination path holds a
  regular file, the removal branch calls \<^verbatim>\<open>shutil.rmtree\<close> on the file: the loop ends
  with NotADirectoryError and the filesystem is as before, the regular file still in
  place.
\<close>

theorem regular_file_collision_raises:
  assumes "os_path_islink s (join source_dir item)"
    and "os_lstat s (join destination_dir item) = Inr (q, File m d)"
  shows "copy_items n s source_dir destination_dir (item # rest)
         = Some (Some NotADirectoryError, s)"
proof -
  from assms(1) obtain t where "os_readlink s (join source_dir item) = Inr t"
    by (auto simp: os_path_islink_def os_readlink_def split: sum.splits prod.splits node.splits)
  moreover have "os_stat s (join destination_dir item) = Inr (q, File m d)"
    using assms(2) by (rule lstat_stat) simp
  then have "os_path_exists s (join destination_dir item)"
    by (simp add: os_path_exists_def)
  moreover have "\<not> os_path_islink s (join destination_dir item)"
    using assms(2) by (simp add: os_path_islink_def)
  moreover have "shutil_rmtree s (join destination_dir item) = Inl NotADirectoryError"
    using assms(2) by (simp add: shutil_rmtree_def)
  ultimately have "copy_symlink s (join source_dir item) (join destination_dir item)
                   = (Some NotADirectoryError, s)"
    by (simp add: copy_symlink_def Let_def)
  then show ?thesis
    using assms(1) by simp
qed

lemma lookup_in_children:
  "lookup es (q @ [c]) = Some n \<Longrightarrow> valid_name c \<Longrightarrow> c \<in> set (children es q)"
proof -
  assume a: "lookup es (q @ [c]) = Some n" and v: "valid_name c"
  then have "(q @ [c], n) \<in> set es"
    by (auto simp: lookup_def dest: map_of_SomeD)
  then have "(q @ [c], n) \<in> set (filter (\<lambda>e. fst e \<noteq> [] \<and> butlast (fst e) = q \<and>
      valid_name (last (fst e))) es)"
    using v by simp
  then have "last (fst (q @ [c], n)) \<in> set (children es q)"
    unfolding children_def set_remdups set_map by (rule imageI)
  then show ?thesis by simp
qed

lemma below_child:
  assumes "below es q p"
  shows "\<exists>c n. valid_name c \<and> lookup es (q @ [c]) = Some n"
proof -
  from assms have "strict_prefix q p" by (simp add: below_def)
  then obtain c r where p: "p = q @ c # r"
    by (auto elim: strict_prefixE')
  from assms p have v: "valid_name c" by (simp add: below_def)
  show ?thesis
  proof (cases "r = []")
    case True
    with assms p v show ?thesis by (auto simp: below_def)
  next
    case False
    have "prefix (q @ [c]) p" using p by simp
    moreover have "strict_prefix q (q @ [c])" by (simp add: strict_prefix_def)
    moreover have "q @ [c] \<noteq> p" using p False by simp
    ultimately have "lookup es (q @ [c]) = Some Dir"
      using assms by (auto simp: below_def list_all_iff)
    with v show ?thesis by blast
  qed
qed

lemma listdir_empty_rglob:
  assumes "os_listdir s d = Inr []"
  shows "rglob s d = []"
proof -
  from assms obtain q where q: "os_stat s d = Inr (q, Dir)" and c: "children (entries s) q = []"
    by (auto simp: os_listdir_def split: sum.splits prod.splits node.splits)
  have "\<not> below (entries s) q p" for p
    using below_child [of "entries s" q p] lookup_in_children [of "entries s" q] c by auto
  then have "filter (below (entries s) q) (map fst (entries s)) = []"
    by (simp add: filter_empty_conv)
  with q show ?thesis by (simp add: rglob_def)
qed

text \<open>
  C5. When the library directory is not a directory or lists no entry,
  \<^verbatim>\<open>build_extension\<close> (and with it \<^verbatim>\<open>run\<close>) raises FileNotFoundError and the
  filesystem is the one it started from: nothing was created or written.
\<close>

theorem missing_source_before_mutation:
  assumes "\<not> os_path_isdir s (lib_dir ext) \<or> os_listdir s (lib_dir ext) = Inr []"
  shows "\<exists>msg. build_extension n ext_fullpath s ext = Some (Some (FileNotFoundError msg), s) \<and>
           run n ext_fullpath s [ext] = Some (Some (FileNotFoundError msg), s)"
proof (cases "os_path_isdir s (lib_dir ext)")
  case False
  then show ?thesis by (simp add: build_extension_def run_def)
next
  case True
  with assms have "rglob s (lib_dir ext) = []"
    by (auto intro: listdir_empty_rglob)
  with True show ?thesis by (simp add: build_extension_def run_def)
qed

theorem missing_source_before_mutation_witness:
  "\<exists>msg. build_extension 3 (\<lambda>n. ''build/lib/'' @ n @ ''.so'') fs_empty_lib
           \<lparr>ext_name = ''pyorbbecsdk'', lib_dir = ''/p/install/lib''\<rparr>
         = Some (Some (FileNotFoundError msg), fs_empty_lib) \<and>
         run 3 (\<lambda>n. ''build/lib/'' @ n @ ''.so'') fs_empty_lib
           [\<lparr>ext_name = ''pyorbbecsdk'', lib_dir = ''/p/install/lib''\<rparr>]
         = Some (Some (FileNotFoundError msg), fs_empty_lib)"
proof -
  have "os_listdir fs_empty_lib ''/p/install/lib'' = Inr []"
    by code_simp
  then have "\<not> os_path_isdir fs_empty_lib
               (lib_dir \<lparr>ext_name = ''pyorbbecsdk'', lib_dir = ''/p/install/lib''\<rparr>) \<or>
             os_listdir fs_empty_lib
               (lib_dir \<lparr>ext_name = ''pyorbbecsdk'', lib_dir = ''/p/install/lib''\<rparr>) = Inr []"
    by simp
  from missing_source_before_mutation [OF this] show ?thesis .
qed

text \<open>
  The violations that \<^verbatim>\<open>check_prerequisites\<close> reports: when nothing is at the path
  of the library directory, when the directory lists no entry, or when it is a directory
  in which \<^verbatim>\<open>rglob\<close> finds no entry with one of the known suffixes, a RuntimeError
  is raised whose message joins the violations and the instructions, and the module
  prints it as a warning and goes on to \<^verbatim>\<open>setup()\<close>.
\<close>

lemma prerequisite_violations_reported:
  assumes "\<not> os_path_exists s d \<or> os_listdir s d = Inr [] \<or>
           (os_path_isdir s d \<and> \<not> has_libs s d)"
  shows "\<exists>errors. errors \<noteq> [] \<and>
           check_prerequisites s d = Inl (RuntimeError (render errors)) \<and>
           module_level s d = Setup_called [''Warning: '' @ render errors,
             ''Continuing setup, but installation may fail if libraries are missing.''] \<and>
           (\<not> os_path_exists s d \<longrightarrow> errors = [''Directory '' @ quoted d @ '' does not exist.'']) \<and>
           (os_listdir s d = Inr [] \<longrightarrow>
              errors = [''Directory '' @ quoted d @ '' is empty.'', ''No library files found in '' @ quoted d]) \<and>
           (os_path_isdir s d \<and> \<not> has_libs s d \<longrightarrow> ''No library files found in '' @ quoted d \<in> set errors)"
proof -
  consider (absent) "\<not> os_path_exists s d"
    | (empty) "os_listdir s d = Inr []"
    | (nolibs) "os_path_isdir s d" "\<not> has_libs s d" "os_listdir s d \<noteq> Inr []"
    using assms by blast
  then show ?thesis
  proof cases
    case absent
    then have "os_listdir s d \<noteq> Inr []" "\<not> os_path_isdir s d"
      by (auto simp: os_path_exists_def os_listdir_def os_path_isdir_def split: sum.splits)
    with absent show ?thesis
      by (intro exI [of _ "[''Directory '' @ quoted d @ '' does not exist.'']"])
        (simp add: check_prerequisites_def module_level_def render_def)
  next
    case empty
    then have ex: "os_path_exists s d"
      by (auto simp: os_path_exists_def os_listdir_def split: sum.splits)
    from empty have "rglob s d = []" by (rule listdir_empty_rglob)
    then have "\<not> has_libs s d" by (simp add: has_libs_def)
    with empty ex show ?thesis
      by (intro exI [of _ "[''Directory '' @ quoted d @ '' is empty.'',
            ''No library files found in '' @ quoted d]"])
        (simp add: check_prerequisites_def module_level_def render_def)
  next
    case nolibs
    from nolibs(1) obtain q where st: "os_stat s d = Inr (q, Dir)"
      by (auto simp: os_path_isdir_def split: sum.splits prod.splits node.splits)
    then have ex: "os_path_exists s d" by (simp add: os_path_exists_def)
    from st nolibs(3) obtain items where "os_listdir s d = Inr items" "items \<noteq> []"
      by (auto simp: os_listdir_def)
    with nolibs ex show ?thesis
      by (intro exI [of _ "[''No library files found in '' @ quoted d]"])
        (simp add: check_prerequisites_def module_level_def render_def)
  qed
qed

text \<open>
  C8. The claim: a prerequisite violation never ends the run at this check. When a
  regular file stands at the path of the library directory, \<^verbatim>\<open>lib_dir.exists()\<close> is
  True and \<^verbatim>\<open>lib_dir.iterdir()\<close> raises NotADirectoryError; the module catches
  RuntimeError only, so the run ends before \<^verbatim>\<open>setup()\<close>. For the same directory
  \<^verbatim>\<open>build_extension\<close> tests \<^verbatim>\<open>os.path.isdir\<close> and reports the directory as
  missing.
\<close>

theorem prerequisite_check_ends_run_on_regular_file:
  "os_path_exists fs_lib_is_file ''install/lib'' \<and>
   \<not> os_path_isdir fs_lib_is_file ''install/lib'' \<and>
   check_prerequisites fs_lib_is_file ''install/lib'' = Inl NotADirectoryError \<and>
   module_level fs_lib_is_file ''install/lib'' = Run_ended NotADirectoryError"
  by code_simp

theorem regular_file_collision_raises_witness:
  "copy_items 1 fs_file_in_the_way ''/s'' ''/d'' [''liba.so'', ''liba.so.1'']
   = Some (Some NotADirectoryError, fs_file_in_the_way)"
proof -
  have a: "os_path_islink fs_file_in_the_way (join ''/s'' ''liba.so'')"
    by code_simp
  have b: "os_lstat fs_file_in_the_way (join ''/d'' ''liba.so'')
           = Inr ([''d'', ''liba.so''], File 420 ''old'')"
    by code_simp
  show ?thesis
    using regular_file_collision_raises [OF a b] .
qed

text \<open>
  C3. A destination path that holds a dangling link: \<^verbatim>\<open>os.path.exists\<close> follows the
  link and answers False, nothing is removed, both calls of \<^verbatim>\<open>os.symlink\<close> find the
  path taken, and the second FileExistsError leaves \<^verbatim>\<open>copy_all_files\<close>; the stale
  link stays.
\<close>

theorem dangling_link_collision_raises:
  "\<not> os_path_exists fs_dangling ''/d/liba.so'' \<and>
   copy_all_files 2 fs_dangling ''/s'' ''/d'' = Some (Some FileExistsError, fs_dangling)"
  by code_simp

subsection \<open>Symbolic links\<close>

lemma lookup_update:
  "q \<noteq> [] \<Longrightarrow> lookup (AList.update q v es) p = (if p = q then Some v else lookup es p)"
  by (simp add: lookup_def update_conv')

lemma lookup_None_nonempty: "lookup es q = None \<Longrightarrow> q \<noteq> []"
  by (auto simp: lookup_def)

lemma walk_update_new:
  "walk es f n cur cs = Inr q \<Longrightarrow> \<not> f \<Longrightarrow> lookup es q = None \<Longrightarrow>
   walk (AList.update q v es) f n cur cs = Inr q"
proof (induction es f n cur cs rule: walk.induct)
  case (1 es follow fuel cur)
  then show ?case by simp
next
  case (2 es follow fuel cur c rest)
  have ne: "q \<noteq> []" using "2.prems"(3) by (rule lookup_None_nonempty)
  show ?case
  proof (cases "c = ''..''")
    case True
    with 2 show ?thesis by simp
  next
    case False
    show ?thesis
    proof (cases "lookup es (cur @ [c])")
      case None
      with "2.prems" False have "rest = []" "q = cur @ [c]"
        by (auto split: if_splits)
      with "2.prems" False show ?thesis
        by (cases v) (simp_all add: lookup_update)
    next
      case (Some nd)
      with "2.prems"(3) have neq: "cur @ [c] \<noteq> q" by auto
      show ?thesis
      proof (cases nd)
        case (File m d)
        with "2.prems" False Some neq ne show ?thesis
          by (simp add: lookup_update split: if_splits)
      next
        case Dir
        with "2.prems" "2.IH"(2) False Some neq ne show ?thesis
          by (simp add: lookup_update)
      next
        case (Symlink t)
        show ?thesis
        proof (cases "rest = [] \<and> \<not> follow")
          case True
          with "2.prems" False Some Symlink neq show ?thesis by auto
        next
          case nonempty: False
          show ?thesis
          proof (cases fuel)
            case 0
            with "2.prems" False Some Symlink nonempty show ?thesis by simp
          next
            case (Suc k)
            with "2.prems" "2.IH"(3) [OF False Some Symlink _ Suc] False Some Symlink nonempty
              neq ne
            show ?thesis by (simp add: lookup_update)
          qed
        qed
      qed
    qed
  qed
qed

lemma symlink_then_readlink:
  assumes "os_symlink s target p = Inr s'"
  shows "os_readlink s' p = Inr target"
proof -
  from assms obtain q where r: "resolve s False p = Inr q" and n: "lookup (entries s) q = None"
    and s': "s' = s\<lparr>entries := AList.update q (Symlink target) (entries s)\<rparr>"
    by (auto simp: os_symlink_def split: sum.splits if_splits option.splits)
  from r have "p \<noteq> []" by (auto simp: resolve_def split: if_splits)
  with r n have "resolve s' False p = Inr q"
    unfolding resolve_def s' using walk_update_new [of "entries s" False 40 _ "comps p" q]
    by (cases "isabs p") simp_all
  moreover have "lookup (entries s') q = Some (Symlink target)"
    using n s' by (simp add: lookup_update lookup_None_nonempty)
  ultimately show ?thesis
    by (simp add: os_readlink_def os_lstat_def)
qed

lemma symlink_same_place:
  "os_symlink s t p = Inl e \<Longrightarrow> t \<noteq> [] \<Longrightarrow> t' \<noteq> [] \<Longrightarrow> os_symlink s t' p = Inl e"
  by (auto simp: os_symlink_def split: sum.splits if_splits option.splits)

lemma sep_join_nonempty: "xs \<noteq> [] \<Longrightarrow> [] \<notin> set xs \<Longrightarrow> sep_join xs \<noteq> []"
  by (cases xs rule: sep_join.cases) auto

lemma relpath_nonempty:
  assumes "relpath c p st = Inr rel"
  shows "rel \<noteq> []"
proof -
  define start_list where "start_list = filter (\<lambda>x. x \<noteq> []) (split_sep (abspath c st))"
  define path_list where "path_list = filter (\<lambda>x. x \<noteq> []) (split_sep (abspath c p))"
  define i where "i = length (longest_common_prefix start_list path_list)"
  define rel_list where "rel_list = replicate (length start_list - i) ''..'' @ drop i path_list"
  have "[] \<notin> set path_list" by (simp add: path_list_def)
  then have "[] \<notin> set (drop i path_list)" by (auto dest: in_set_dropD)
  then have ne: "[] \<notin> set rel_list" by (auto simp: rel_list_def)
  from assms have "rel = (if rel_list = [] then ''.'' else sep_join rel_list)"
    unfolding relpath_def Let_def rel_list_def i_def path_list_def start_list_def
    by (auto split: if_splits)
  with ne sep_join_nonempty [of rel_list] show ?thesis by (auto split: if_splits)
qed

lemma relpath_Inl: "relpath c p st = Inl e \<Longrightarrow> p = []"
  unfolding relpath_def Let_def by (auto split: if_splits)

lemma unlink_cwd: "os_unlink s p = Inr s' \<Longrightarrow> cwd s' = cwd s"
  by (auto simp: os_unlink_def split: sum.splits prod.splits node.splits)

lemma rmtree_cwd: "shutil_rmtree s p = Inr s' \<Longrightarrow> cwd s' = cwd s"
  by (auto simp: shutil_rmtree_def split: sum.splits prod.splits node.splits)

text \<open>
  C2, amended. For a source link with a relative target the link branch, when it
  succeeds, leaves at the destination path a link whose target is
  \<^verbatim>\<open>relpath(join(dirname(source_path), target), dirname(destination_path))\<close>: the
  target of the source link, resolved against the directory of the source link, written
  relative to the directory of the destination link. It names the target in the source
  tree; no path of the destination tree is computed. The absolute target is used only
  when \<^verbatim>\<open>relpath\<close> raises.
\<close>

theorem relative_link_recreated_towards_source:
  assumes "os_readlink s source_path = Inr target" and "\<not> isabs target"
    and "copy_symlink s source_path destination_path = (None, s')"
  shows "\<exists>rel. relpath (cwd s) (join (dirname source_path) target) (dirname destination_path)
                 = Inr rel \<and>
               os_readlink s' destination_path = Inr rel"
proof -
  let ?lt = "join (dirname source_path) target"
  let ?rm = "if os_path_exists s destination_path
             then (if os_path_islink s destination_path
                   then os_unlink s destination_path
                   else shutil_rmtree s destination_path)
             else Inr s"
  from assms obtain s1 where s1: "?rm = Inr s1"
    by (auto simp: copy_symlink_def Let_def split: sum.splits)
  then have c: "cwd s1 = cwd s"
    by (auto split: if_splits dest: unlink_cwd rmtree_cwd)
  show ?thesis
  proof (cases "relpath (cwd s) ?lt (dirname destination_path)")
    case (Inl e)
    then have "?lt = []" by (rule relpath_Inl)
    then have "os_symlink s1 ?lt destination_path \<noteq> Inr s'"
      by (auto simp: os_symlink_def split: sum.splits)
    with assms s1 c Inl show ?thesis
      by (auto simp: copy_symlink_def Let_def split: sum.splits if_splits)
  next
    case (Inr rel)
    then have rel: "rel \<noteq> []" by (rule relpath_nonempty)
    have "os_symlink s1 rel destination_path = Inr s'"
    proof (cases "os_symlink s1 rel destination_path")
      case (Inr s2)
      with assms s1 c \<open>relpath (cwd s) ?lt (dirname destination_path) = Inr rel\<close>
      show ?thesis by (simp add: copy_symlink_def Let_def)
    next
      case (Inl e)
      show ?thesis
      proof (cases "?lt = []")
        case True
        then have "os_symlink s1 ?lt destination_path \<noteq> Inr s'"
          by (auto simp: os_symlink_def split: sum.splits)
        with assms s1 c Inl \<open>relpath (cwd s) ?lt (dirname destination_path) = Inr rel\<close>
        show ?thesis
          by (auto simp: copy_symlink_def Let_def split: sum.splits if_splits)
      next
        case False
        with Inl rel have "os_symlink s1 ?lt destination_path = Inl e"
          by (rule symlink_same_place)
        with assms s1 c Inl \<open>relpath (cwd s) ?lt (dirname destination_path) = Inr rel\<close>
        show ?thesis
          by (auto simp: copy_symlink_def Let_def split: sum.splits if_splits)
      qed
    qed
    then have "os_readlink s' destination_path = Inr rel"
      by (rule symlink_then_readlink)
    with Inr show ?thesis by simp
  qed
qed

theorem relative_link_recreated_towards_source_witness:
  "\<exists>rel. relpath (cwd fs_staged) (join (dirname ''/s/liba.so'') ''liba.so.1'') (dirname ''/d/liba.so'')
           = Inr rel \<and>
         os_readlink (fs_staged\<lparr>entries := entries fs_staged @ [([''d'', ''liba.so''], Symlink ''../s/liba.so.1'')]\<rparr>)
           ''/d/liba.so'' = Inr rel"
proof -
  have a: "os_readlink fs_staged ''/s/liba.so'' = Inr ''liba.so.1''"
    by code_simp
  have b: "\<not> isabs ''liba.so.1''"
    by code_simp
  have c: "copy_symlink fs_staged ''/s/liba.so'' ''/d/liba.so''
           = (None, fs_staged\<lparr>entries := entries fs_staged @ [([''d'', ''liba.so''], Symlink ''../s/liba.so.1'')]\<rparr>)"
    by code_simp
  show ?thesis
    using relative_link_recreated_towards_source [OF a b c] .
qed

text \<open>
  C2. The claim has the new link point at the equivalent path inside the destination
  tree. After copying \<open>/s\<close>, with the link \<open>liba.so\<close> to \<open>liba.so.1\<close>, into \<open>/d\<close>,
  the link \<open>/d/liba.so\<close> has the target \<open>../s/liba.so.1\<close> and leads to the file of the
  source tree, not to \<open>/d/liba.so.1\<close>.
\<close>

theorem relative_link_leaves_destination_tree:
  "(case copy_all_files 2 fs_fresh ''/s'' ''/d'' of
      Some (None, s') \<Rightarrow>
        os_readlink s' ''/d/liba.so'' = Inr ''../s/liba.so.1'' \<and>
        os_stat s' ''/d/liba.so'' = Inr ([''s'', ''liba.so.1''], File 384 ''abc'') \<and>
        os_lstat s' ''/d/liba.so.1'' = Inr ([''d'', ''liba.so.1''], File 384 ''abc'') \<and>
        normpath (join (dirname ''/d/liba.so'') ''../s/liba.so.1'') = ''/s/liba.so.1''
    | _ \<Rightarrow> False)"
  by code_simp

subsection \<open>The permission pass\<close>

text \<open>What \<^verbatim>\<open>os.chmod(filepath, os.stat(filepath).st_mode | 0o755)\<close> stores.\<close>

lemma chmod_mode: "(of_nat (st_mode (File m d) OR 493) :: 12 word) = m OR 493"
proof -
  have "(of_nat ((32768 OR unat m) OR 493) :: 12 word)
        = (of_nat 32768 OR of_nat (unat m)) OR of_nat 493"
    by (simp add: of_nat_or_eq)
  also have "(of_nat 32768 :: 12 word) = 0"
    by (simp add: word_eq_iff_unsigned [where ?'a = nat] unsigned_of_nat take_bit_eq_mod)
  finally show ?thesis by simp
qed

lemma erase_eq_Dir [simp]: "erase z = Dir \<longleftrightarrow> z = Dir"
  by (cases z) auto

lemma erase_eq_Symlink [simp]: "erase z = Symlink t \<longleftrightarrow> z = Symlink t"
  by (cases z) auto




































lemma or_73_of_384: "(384 :: 12 word) OR 73 = 457" by simp

lemma or_493_of_384: "(384 :: 12 word) OR 493 = 493" by simp

lemma neq_493_457: "(493 :: 12 word) \<noteq> 457" by simp




lemma liba_is_shared_library: "is_shared_library (join ''/d'' ''liba.so.1'') ''liba.so.1''"
  by code_simp



lemma join_liba_copied: "join ''/d'' ''liba.so.1'' = ''/d/liba.so.1''" by code_simp




section \<open>The source tree during a build\<close>

text \<open>
  The first copy of a source that holds the link \<^verbatim>\<open>liba.so -> liba.so.1\<close> leaves in the
  destination a link that points back into the source tree.
\<close>

lemma link_into_source_left_by_first_copy:
  "copy_all_files 2 fs_fresh ''/s'' ''/d'' = Some (None, fs_first_copy)"
  by code_simp

lemma build_fresh:
  "build_extensions 2 ext_in_d fs_fresh [\<lparr>ext_name = ''pyorbbecsdk'', lib_dir = ''/s''\<rparr>]
   = Some (None, fs_first_copy)"
  by code_simp

lemma walk_first_copy: "os_walk fs_first_copy ''/d'' = [(''/d'', [], [''liba.so'', ''liba.so.1''])]"
  by code_simp

lemma extdir_first_copy: "abspath (cwd fs_first_copy) (dirname (ext_in_d ''pyorbbecsdk'')) = ''/d''"
  by code_simp

lemma exists_first_copy: "os_path_exists fs_first_copy ''/d''"
  by code_simp

lemma link_is_shared_library: "is_shared_library (join ''/d'' ''liba.so'') ''liba.so''"
  by code_simp

lemma stat_link_first_copy:
  "os_stat fs_first_copy (join ''/d'' ''liba.so'') = Inr ([''s'', ''liba.so.1''], File 384 ''abc'')"
  by code_simp

lemma stat_liba_first_fixed:
  "os_stat fs_first_fixed (join ''/d'' ''liba.so.1'') = Inr ([''d'', ''liba.so.1''], File 384 ''abc'')"
  by code_simp

lemma fix_link_first_copy: "fix_file fs_first_copy (join ''/d'' ''liba.so'') = Inr fs_first_fixed"
  unfolding fix_file_def os_chmod_def stat_link_first_copy using chmod_mode [of 384 "''abc''"]
  by (simp add: or_493_of_384 fs_first_copy_def fs_first_fixed_def del: st_mode.simps)

lemma fix_liba_first_fixed:
  "fix_file fs_first_fixed (join ''/d'' ''liba.so.1'')
   = Inr (fs_first_fixed\<lparr>entries := AList.update [''d'', ''liba.so.1''] (File 493 ''abc'')
        (entries fs_first_fixed)\<rparr>)"
  unfolding fix_file_def os_chmod_def stat_liba_first_fixed using chmod_mode [of 384 "''abc''"]
  by (simp add: or_493_of_384 del: st_mode.simps)

text \<open>
  The permission pass of \<^verbatim>\<open>run\<close> after that first copy: \<^verbatim>\<open>os.walk\<close> lists the link
  \<^verbatim>\<open>/d/liba.so\<close> among the files, \<^verbatim>\<open>os.stat\<close> and \<^verbatim>\<open>os.chmod\<close> follow it, and the
  bits of the source file \<^verbatim>\<open>/s/liba.so.1\<close> go from \<open>0o600\<close> (384) to \<open>0o755\<close> (493).
\<close>

lemma permission_pass_changes_source_file:
  "lookup (entries fs_fresh) [''s'', ''liba.so.1''] = Some (File 384 ''abc'') \<and>
   (case run 2 ext_in_d fs_fresh [\<lparr>ext_name = ''pyorbbecsdk'', lib_dir = ''/s''\<rparr>] of
      Some (None, s') \<Rightarrow> lookup (entries s') [''s'', ''liba.so.1''] = Some (File 493 ''abc'')
    | _ \<Rightarrow> False)"
proof -
  have a: "lookup (entries fs_fresh) [''s'', ''liba.so.1''] = Some (File 384 ''abc'')"
    by code_simp
  have b: "fix_file_permissions ext_in_d fs_first_copy [\<lparr>ext_name = ''pyorbbecsdk'', lib_dir = ''/s''\<rparr>]
     = (None, fs_first_fixed\<lparr>entries := AList.update [''d'', ''liba.so.1''] (File 493 ''abc'')
        (entries fs_first_fixed)\<rparr>)"
    using link_is_shared_library liba_is_shared_library
    by (simp add: walk_first_copy extdir_first_copy exists_first_copy fix_link_first_copy
        fix_liba_first_fixed)
  have c: "run 2 ext_in_d fs_fresh [\<lparr>ext_name = ''pyorbbecsdk'', lib_dir = ''/s''\<rparr>]
     = Some (fix_file_permissions ext_in_d fs_first_copy [\<lparr>ext_name = ''pyorbbecsdk'', lib_dir = ''/s''\<rparr>])"
    unfolding run_def build_fresh by simp
  show ?thesis
    unfolding c b using a by (simp add: lookup_def fs_first_fixed_def)
qed

text \<open>
  C7. The claim: a copy changes nothing under the source directory. For a regular file of
  the source \<^verbatim>\<open>copy_all_files\<close> calls \<^verbatim>\<open>shutil.copy2\<close> without looking at what stands
  at the destination path (the branch for links removes it first). When that path holds a
  link into the source tree, as the first copy leaves it, and \<^verbatim>\<open>liba.so\<close> has since
  become a regular file of the source, \<^verbatim>\<open>copy2\<close> writes through the link: the copy
  returns with no error, the file \<^verbatim>\<open>/s/liba.so.1\<close> of the source has the contents of
  \<^verbatim>\<open>/s/liba.so\<close>, and the destination still holds the link.
\<close>

theorem stale_destination_link_overwrites_source:
  "lookup (entries fs_stale_link) [''s'', ''liba.so.1''] = Some (File 420 ''old'') \<and>
   (case copy_all_files 2 fs_stale_link ''/s'' ''/d'' of
      Some (None, s') \<Rightarrow>
        lookup (entries s') [''s'', ''liba.so.1''] = Some (File 420 ''new'') \<and>
        lookup (entries s') [''d'', ''liba.so''] = Some (Symlink ''../s/liba.so.1'')
    | _ \<Rightarrow> False)"
  by code_simp

end
